theory Spec2Isabelle
  imports Main "HOL-Library.Multiset"
begin

section \<open>The session controller of src/src/App.jsx\<close>

text \<open>
  The component \<^verbatim>\<open>App\<close> (App.jsx lines 10-322) keeps five pieces of React state, three
  refs, and talks to the browser (camera, timers, console) and to face-api.js. The model
  below keeps the source's names. What the browser owns is written into the same record:
  the interval timers that are running, the camera tracks that are live, the console.

  A \<^verbatim>\<open>MediaStream\<close> is the list of the ids of its tracks (what \<^verbatim>\<open>getTracks()\<close>
  returns). A promise that is still pending is a \<open>task\<close>; the values that the awaiting
  closure captured at render time travel with it.
\<close>

type_synonym stream = "nat list"

text \<open>
  \<^verbatim>\<open>initializeVideo\<close> is called from two places: the effect on \<^verbatim>\<open>[isVideoOn]\<close>
  (line 31, whose \<^verbatim>\<open>.catch\<close> reads the effect run's own \<^verbatim>\<open>mounted\<close>) and
  \<^verbatim>\<open>toggleVideo\<close> (line 204, which goes on with the \<^verbatim>\<open>areModelsLoaded\<close> and the
  \<^verbatim>\<open>startFaceDetection\<close> of its render; the latter closes over that render's
  \<^verbatim>\<open>isVideoInitialized\<close>).
\<close>

datatype caller =
    FromEffect nat
  | FromToggle bool bool

text \<open>What runs after \<^verbatim>\<open>await startFaceDetection()\<close>: the \<^verbatim>\<open>finally\<close> of
  \<^verbatim>\<open>loadModels\<close> (line 109), or nothing in \<^verbatim>\<open>toggleVideo\<close>.\<close>

datatype cont = AfterLoadModels | AfterToggle

datatype task =
    GetUserMedia caller
  | LoadModels bool bool
  | Gallery cont

datatype log_entry =
    ConsoleError string string
  | ConsoleWarn nat string string

datatype view = NotRendered | ErrorView | MainView

record video =
  srcObject :: "stream option"
  onloadedmetadata :: "caller option"
  metadataPending :: bool

record app =
  isVideoOn :: bool
  isVideoInitialized :: bool
  areModelsLoaded :: bool
  error :: "string option"
  isLoading :: bool
  videoRef :: "video option"
  canvasRef :: bool
  detectionIntervalRef :: "nat option"
  timers :: "nat list"
  nextTimer :: nat
  liveTracks :: "nat list"
  console :: "log_entry list"
  overlays :: nat
  pending :: "task list"
  view :: view
  renderedOn :: bool
  renderedInit :: bool
  renderedModels :: bool
  effectRun :: nat
  mounted :: bool
  detached :: "video list"

text \<open>
  The first five fields are the state of lines 11-15, the next three the refs of lines
  17-19 (\<^verbatim>\<open>canvasRef\<close> only says whether the canvas is attached). Then the browser:
  the ids of the running interval timers and the next fresh id, the tracks that were
  handed out and not stopped, the console, the number of overlays drawn, and the pending
  promises. The last fields are what the last commit fixed: the view on screen, the
  values that its handlers closed over, and which run of the effect on \<^verbatim>\<open>[isVideoOn]\<close>
  is the current one and whether its \<^verbatim>\<open>mounted\<close> is still true. \<open>detached\<close> holds
  the video elements that have left the output: the ref no longer reaches them, but they
  keep their \<^verbatim>\<open>srcObject\<close> and their \<^verbatim>\<open>onloadedmetadata\<close> handler.

  A state setter changes the record at once; a handler or a continuation reads what its
  own render saw, which is why those values are kept apart.
\<close>

text \<open>The state before the first commit: the \<^verbatim>\<open>useState\<close> and \<^verbatim>\<open>useRef\<close>
  initialisers of lines 11-19.\<close>

definition initial :: app where
  "initial = \<lparr> isVideoOn = False, isVideoInitialized = False, areModelsLoaded = False,
     error = None, isLoading = True, videoRef = None, canvasRef = False,
     detectionIntervalRef = None, timers = [], nextTimer = 0, liveTracks = [],
     console = [], overlays = 0, pending = [], view = NotRendered,
     renderedOn = False, renderedInit = False, renderedModels = False,
     effectRun = 0, mounted = False, detached = [] \<rparr>"

subsection \<open>Timers\<close>

text \<open>\<^verbatim>\<open>clearInterval(detectionIntervalRef.current)\<close>: a handle that is \<^verbatim>\<open>null\<close> or
  names no running timer clears nothing. The ref itself is never reset.\<close>

definition clearInterval :: "nat option \<Rightarrow> app \<Rightarrow> app" where
  "clearInterval h s =
     (case h of None \<Rightarrow> s | Some t \<Rightarrow> s\<lparr>timers := removeAll t (timers s)\<rparr>)"

text \<open>\<^verbatim>\<open>detectionIntervalRef.current = setInterval(..., DETECTION_INTERVAL)\<close> (line 56):
  a fresh timer starts and its id overwrites the ref, whatever the ref held.\<close>

definition setInterval :: "app \<Rightarrow> app" where
  "setInterval s =
     s\<lparr>detectionIntervalRef := Some (nextTimer s),
       timers := timers s @ [nextTimer s],
       nextTimer := Suc (nextTimer s)\<rparr>"

subsection \<open>stopVideo (lines 143-151)\<close>

text \<open>The stream the video surface holds, read through the ref as line 144 does.\<close>

definition heldStream :: "app \<Rightarrow> stream option" where
  "heldStream s = (case videoRef s of None \<Rightarrow> None | Some v \<Rightarrow> srcObject v)"

definition stopVideo :: "app \<Rightarrow> app" where
  "stopVideo s =
     (let s1 = (case videoRef s of
                  None \<Rightarrow> s
                | Some v \<Rightarrow>
                    (case srcObject v of
                       None \<Rightarrow> s
                     | Some tracks \<Rightarrow>
                         s\<lparr>liveTracks := filter (\<lambda>t. t \<notin> set tracks) (liveTracks s),
                           videoRef := Some (v\<lparr>srcObject := None\<rparr>)\<rparr>));
          s2 = s1\<lparr>isVideoInitialized := False\<rparr>
      in clearInterval (detectionIntervalRef s2) s2)"

subsection \<open>getLabeledFaceDescriptions (lines 153-195)\<close>

text \<open>
  \<^verbatim>\<open>labels\<close> is imported from \<^verbatim>\<open>./data/labels\<close>, which is not among the sources: it
  is a parameter. What \<^verbatim>\<open>fetchImage\<close> and \<^verbatim>\<open>detectSingleFace\<close> do for image \<open>i\<close> of a
  label is given by an oracle \<open>img\<close>: the fetch rejects, the detection chain rejects, the
  detection resolves to \<^verbatim>\<open>undefined\<close> (no face), or it yields a descriptor.

  The accumulator of one label's loop holds \<^verbatim>\<open>descriptors\<close>, the warnings written by
  line 175, and the images whose fetch was attempted (line 163).
\<close>

datatype 'd image_result = FetchFailed string | DetectFailed string | NoFace | Face 'd

record 'd scan =
  descriptors :: "'d list"
  warned :: "log_entry list"
  fetched :: "(string \<times> nat) list"

definition process_image ::
  "(string \<Rightarrow> nat \<Rightarrow> 'd image_result) \<Rightarrow> string \<Rightarrow> nat \<Rightarrow> 'd scan \<Rightarrow> 'd scan" where
  "process_image img label i a =
     (let a1 = a\<lparr>fetched := fetched a @ [(label, i)]\<rparr>
      in case img label i of
           FetchFailed m \<Rightarrow> a1\<lparr>warned := warned a1 @ [ConsoleWarn i label m]\<rparr>
         | DetectFailed m \<Rightarrow> a1\<lparr>warned := warned a1 @ [ConsoleWarn i label m]\<rparr>
         | NoFace \<Rightarrow> a1
         | Face d \<Rightarrow> a1\<lparr>descriptors := descriptors a1 @ [d]\<rparr>)"

text \<open>\<^verbatim>\<open>for (let i = 0; i < labels.length; i++)\<close> (line 161): \<open>n\<close> is
  \<^verbatim>\<open>labels.length\<close>.\<close>

function image_loop ::
  "(string \<Rightarrow> nat \<Rightarrow> 'd image_result) \<Rightarrow> string \<Rightarrow> nat \<Rightarrow> nat \<Rightarrow> 'd scan \<Rightarrow> 'd scan" where
  "image_loop img label n i a =
     (if i < n then image_loop img label n (Suc i) (process_image img label i a) else a)"
  by pat_completeness auto
termination
  by (relation "measure (\<lambda>(img, label, n, i, a). n - i)") auto

declare image_loop.simps [simp del]

record 'd build =
  gallery :: "(string \<times> 'd list) list"
  warnings :: "log_entry list"
  requests :: "(string \<times> nat) list"

text \<open>One callback of \<^verbatim>\<open>labels.map\<close> (lines 158-187). The callbacks of the labels run
  interleaved and push in the order in which they finish; the model runs them in the
  order of \<^verbatim>\<open>labels\<close>.\<close>

definition label_callback ::
  "string list \<Rightarrow> (string \<Rightarrow> nat \<Rightarrow> 'd image_result) \<Rightarrow> 'd build \<Rightarrow> string \<Rightarrow> 'd build" where
  "label_callback labels img b label =
     (let a = image_loop img label (length labels) 0
                \<lparr>descriptors = [], warned = [], fetched = []\<rparr>
      in \<lparr> gallery = (if descriptors a = [] then gallery b
                       else gallery b @ [(label, descriptors a)]),
           warnings = warnings b @ warned a,
           requests = requests b @ fetched a \<rparr>)"

definition getLabeledFaceDescriptions ::
  "string list \<Rightarrow> (string \<Rightarrow> nat \<Rightarrow> 'd image_result) \<Rightarrow> 'd build" where
  "getLabeledFaceDescriptions labels img =
     foldl (label_callback labels img) \<lparr>gallery = [], warnings = [], requests = []\<rparr> labels"

subsection \<open>startFaceDetection (lines 44-91)\<close>

text \<open>
  Line 45, \<^verbatim>\<open>if (!isVideoInitialized || !videoRef.current) return;\<close>: the function goes
  on exactly when the \<^verbatim>\<open>isVideoInitialized\<close> of its closure is true and the ref is
  attached. \<open>ini\<close> is the closure's value, not the state's.
\<close>

definition startFaceDetection_guard :: "bool \<Rightarrow> app \<Rightarrow> bool" where
  "startFaceDetection_guard ini s = (ini \<and> videoRef s \<noteq> None)"

text \<open>
  Lines 50-90, what runs once \<^verbatim>\<open>await getLabeledFaceDescriptions()\<close> has given the
  gallery \<open>g\<close>: an empty gallery throws \<^verbatim>\<open>No face descriptors found\<close>, which the
  \<^verbatim>\<open>catch\<close> of line 87 turns into the error slot and a console line; otherwise the
  timer is started. Nothing is read again between the \<^verbatim>\<open>await\<close> and line 56. The
  constructors of lines 54 and 184 are taken not to throw.
\<close>

definition startFaceDetection_resume :: "'g list \<Rightarrow> app \<Rightarrow> app" where
  "startFaceDetection_resume g s =
     (if g = []
      then s\<lparr>error := Some ''Face detection failed: No face descriptors found'',
             console := console s @
               [ConsoleError ''Face detection error:'' ''No face descriptors found'']\<rparr>
      else setInterval s)"

definition finish :: "cont \<Rightarrow> app \<Rightarrow> app" where
  "finish k s = (case k of AfterLoadModels \<Rightarrow> s\<lparr>isLoading := False\<rparr> | AfterToggle \<Rightarrow> s)"

text \<open>A call of \<^verbatim>\<open>startFaceDetection\<close> up to its \<^verbatim>\<open>await\<close>: it either returns at
  line 45, and the caller goes on, or leaves the gallery build pending.\<close>

definition startFaceDetection_enter :: "bool \<Rightarrow> cont \<Rightarrow> app \<Rightarrow> app" where
  "startFaceDetection_enter ini k s =
     (if startFaceDetection_guard ini s
      then s\<lparr>pending := pending s @ [Gallery k]\<rparr>
      else finish k s)"

text \<open>The interval callback (lines 56-86) on one tick. The detection and drawing of a
  frame either go through or throw somewhere inside the \<^verbatim>\<open>try\<close>.\<close>

datatype frame = FrameDrawn | FrameThrew string

definition interval_callback :: "frame \<Rightarrow> app \<Rightarrow> app" where
  "interval_callback f s =
     (if canvasRef s \<and> videoRef s \<noteq> None
      then (case f of
              FrameDrawn \<Rightarrow> s\<lparr>overlays := Suc (overlays s)\<rparr>
            | FrameThrew m \<Rightarrow>
                s\<lparr>console := console s @ [ConsoleError ''Frame processing error:'' m]\<rparr>)
      else s)"

subsection \<open>loadModels (lines 93-111)\<close>

text \<open>\<open>on\<close> and \<open>ini\<close> are the \<^verbatim>\<open>isVideoOn\<close> and (through \<^verbatim>\<open>startFaceDetection\<close>)
  the \<^verbatim>\<open>isVideoInitialized\<close> of the render that made this \<^verbatim>\<open>loadModels\<close>.\<close>

definition loadModels_start :: "bool \<Rightarrow> bool \<Rightarrow> app \<Rightarrow> app" where
  "loadModels_start on ini s = s\<lparr>isLoading := True, pending := pending s @ [LoadModels on ini]\<rparr>"

text \<open>\<^verbatim>\<open>Promise.all\<close> of the three weight loads settles: \<open>None\<close> when all three
  succeeded, \<open>Some m\<close> when one rejected with message \<open>m\<close>.\<close>

definition loadModels_settle :: "bool \<Rightarrow> bool \<Rightarrow> string option \<Rightarrow> app \<Rightarrow> app" where
  "loadModels_settle on ini outcome s =
     (case outcome of
        None \<Rightarrow>
          (let s1 = s\<lparr>areModelsLoaded := True\<rparr>
           in if on then startFaceDetection_enter ini AfterLoadModels s1
              else finish AfterLoadModels s1)
      | Some m \<Rightarrow>
          finish AfterLoadModels
            (s\<lparr>error := Some (''Failed to load models: '' @ m),
               console := console s @ [ConsoleError ''Error loading models:'' m]\<rparr>))"

subsection \<open>initializeVideo (lines 117-141) and its two callers\<close>

definition isMounted :: "nat \<Rightarrow> app \<Rightarrow> bool" where
  "isMounted k s = (k = effectRun s \<and> mounted s)"

text \<open>What the caller does when \<^verbatim>\<open>initializeVideo\<close> rethrows (line 139): the
  \<^verbatim>\<open>.catch\<close> of lines 31-36, or the \<^verbatim>\<open>catch\<close> of lines 209-212.\<close>

definition caller_catch :: "caller \<Rightarrow> string \<Rightarrow> app \<Rightarrow> app" where
  "caller_catch c m s =
     (case c of
        FromEffect k \<Rightarrow>
          (if isMounted k s then s\<lparr>error := Some m, isVideoOn := False\<rparr> else s)
      | FromToggle aml ini \<Rightarrow>
          s\<lparr>error := Some (''Failed to toggle video: '' @ m), isVideoOn := False\<rparr>)"

text \<open>What the caller does when the promise of \<^verbatim>\<open>initializeVideo\<close> resolves: nothing
  in the effect; lines 205-207 in \<^verbatim>\<open>toggleVideo\<close>.\<close>

definition caller_continue :: "caller \<Rightarrow> app \<Rightarrow> app" where
  "caller_continue c s =
     (case c of
        FromEffect k \<Rightarrow> s
      | FromToggle aml ini \<Rightarrow>
          (if aml then startFaceDetection_enter ini AfterToggle s else s))"

text \<open>
  \<^verbatim>\<open>getUserMedia\<close> settles: \<open>Inl m\<close> is a rejection with message \<open>m\<close>, \<open>Inr st\<close> a
  stream whose tracks are live from now on. With no video element behind the ref the
  function returns at line 127 and the stream is dropped as it is; otherwise the stream
  replaces whatever \<^verbatim>\<open>srcObject\<close> held and the handler of line 132 replaces the
  element's handler.
\<close>

definition initializeVideo_settle :: "caller \<Rightarrow> string + stream \<Rightarrow> app \<Rightarrow> app" where
  "initializeVideo_settle c outcome s =
     (case outcome of
        Inl m \<Rightarrow> caller_catch c m (s\<lparr>error := Some (''Camera access denied: '' @ m)\<rparr>)
      | Inr st \<Rightarrow>
          (let s1 = s\<lparr>liveTracks := liveTracks s @ st\<rparr>
           in case videoRef s1 of
                None \<Rightarrow> caller_continue c s1
              | Some v \<Rightarrow>
                  s1\<lparr>videoRef := Some (v\<lparr>srcObject := Some st,
                                          onloadedmetadata := Some c,
                                          metadataPending := True\<rparr>)\<rparr>))"

text \<open>
  A video element reports \<^verbatim>\<open>loadedmetadata\<close> for the stream it holds: the handler of
  lines 132-135 runs and resolves the promise its caller awaits. The handler is a
  property of the element, not of the ref: it runs for the element behind the ref
  (\<open>loadedmetadata\<close>) and just as well for an element that has left the output in the
  meantime (\<open>loadedmetadata_detached\<close>).
\<close>

definition loadedmetadata :: "app \<Rightarrow> app" where
  "loadedmetadata s =
     (case videoRef s of
        None \<Rightarrow> s
      | Some v \<Rightarrow>
          (if srcObject v \<noteq> None \<and> metadataPending v
           then (case onloadedmetadata v of
                   None \<Rightarrow> s
                 | Some c \<Rightarrow>
                     caller_continue c
                       (s\<lparr>isVideoInitialized := True,
                          videoRef := Some (v\<lparr>metadataPending := False\<rparr>)\<rparr>))
           else s))"

definition loadedmetadata_detached :: "nat \<Rightarrow> app \<Rightarrow> app" where
  "loadedmetadata_detached i s =
     (if i < length (detached s)
      then (if srcObject (detached s ! i) \<noteq> None \<and> metadataPending (detached s ! i)
            then (case onloadedmetadata (detached s ! i) of
                    None \<Rightarrow> s
                  | Some c \<Rightarrow>
                      caller_continue c
                        (s\<lparr>isVideoInitialized := True,
                           detached := (detached s)
                             [i := (detached s ! i)\<lparr>metadataPending := False\<rparr>]\<rparr>))
            else s)
      else s)"

subsection \<open>toggleVideo (lines 197-219) and the Retry button (lines 226-229)\<close>

text \<open>Both handlers are the ones of the last commit, so they read the rendered values.
  The toggle button exists in the main view only, the Retry button in the error view
  only (lines 221-236).\<close>

definition toggleVideo :: "app \<Rightarrow> app" where
  "toggleVideo s =
     (if renderedOn s
      then (stopVideo s)\<lparr>isVideoOn := False\<rparr>
      else s\<lparr>isVideoOn := True,
             pending := pending s @
               [GetUserMedia (FromToggle (renderedModels s) (renderedInit s))]\<rparr>)"

definition retry :: "app \<Rightarrow> app" where
  "retry s = loadModels_start (renderedOn s) (renderedInit s) (s\<lparr>error := None\<rparr>)"

subsection \<open>Rendering and the two effects (lines 21-42, 113-115, 221-322)\<close>

text \<open>\<^verbatim>\<open>if (error)\<close>: \<^verbatim>\<open>null\<close> and the empty string both count as no error.\<close>

definition errorShown :: "app \<Rightarrow> bool" where
  "errorShown s = (case error s of None \<Rightarrow> False | Some e \<Rightarrow> e \<noteq> [])"

definition showsVideo :: "app \<Rightarrow> bool" where
  "showsVideo s = (\<not> errorShown s \<and> areModelsLoaded s \<and> isVideoOn s)"

definition newVideo :: video where
  "newVideo = \<lparr>srcObject = None, onloadedmetadata = None, metadataPending = False\<rparr>"

text \<open>React attaches \<^verbatim>\<open>videoRef\<close> and \<^verbatim>\<open>canvasRef\<close> when the elements of lines
  247-261 are in the output and sets them to \<^verbatim>\<open>null\<close> when they leave it; an element
  that stays keeps its \<^verbatim>\<open>srcObject\<close>, and so does an element that leaves: nothing
  but \<^verbatim>\<open>stopVideo\<close> ever takes a stream off an element, and only through the ref.\<close>

definition commitRefs :: "app \<Rightarrow> app" where
  "commitRefs s =
     (if showsVideo s
      then s\<lparr>videoRef := (case videoRef s of None \<Rightarrow> Some newVideo | Some v \<Rightarrow> Some v),
             canvasRef := True\<rparr>
      else s\<lparr>videoRef := None, canvasRef := False,
             detached := detached s @ (case videoRef s of None \<Rightarrow> [] | Some v \<Rightarrow> [v])\<rparr>)"

text \<open>The \<^verbatim>\<open>cleanup\<close> of lines 24-28.\<close>

definition cleanup :: "app \<Rightarrow> app" where
  "cleanup s = stopVideo (clearInterval (detectionIntervalRef s) (s\<lparr>mounted := False\<rparr>))"

text \<open>The body of the effect on \<^verbatim>\<open>[isVideoOn]\<close> (lines 22 and 30-39); \<open>on\<close> is the
  rendered \<^verbatim>\<open>isVideoOn\<close>.\<close>

definition effect_isVideoOn :: "bool \<Rightarrow> app \<Rightarrow> app" where
  "effect_isVideoOn on s =
     (let s1 = s\<lparr>effectRun := Suc (effectRun s), mounted := True\<rparr>
      in if on
         then s1\<lparr>pending := pending s1 @ [GetUserMedia (FromEffect (effectRun s1))]\<rparr>
         else stopVideo s1)"

text \<open>
  One commit: the output is rendered from the current state (\<open>committed\<close>: the refs follow
  the output, and the handlers now close over these values), then the effects whose
  dependencies changed run. The first effect runs when \<^verbatim>\<open>isVideoOn\<close> differs from the
  last commit, its previous cleanup first. \<^verbatim>\<open>loadModels\<close> is rebuilt when \<^verbatim>\<open>isVideoOn\<close> or
  \<^verbatim>\<open>startFaceDetection\<close> changed (line 111), the latter when \<^verbatim>\<open>isVideoInitialized\<close>
  changed (line 91), so the effect of lines 113-115 calls it again after either change.
\<close>

definition committed :: "app \<Rightarrow> app" where
  "committed s =
     (commitRefs s)\<lparr>view := (if errorShown s then ErrorView else MainView),
                      renderedOn := isVideoOn s, renderedInit := isVideoInitialized s,
                      renderedModels := areModelsLoaded s\<rparr>"

definition render :: "app \<Rightarrow> app" where
  "render s =
     (let first = (view s = NotRendered);
          on = isVideoOn s;
          ini = isVideoInitialized s;
          run1 = (first \<or> on \<noteq> renderedOn s);
          run2 = (run1 \<or> ini \<noteq> renderedInit s);
          s1 = committed s;
          s2 = (if run1 \<and> \<not> first then cleanup s1 else s1);
          s3 = (if run1 then effect_isVideoOn on s2 else s2)
      in if run2 then loadModels_start on ini s3 else s3)"

subsection \<open>Events\<close>

text \<open>
  Between two \<^verbatim>\<open>await\<close>s the code runs to completion, so an execution is a sequence of
  events: a commit, a click, a promise settling, \<^verbatim>\<open>loadedmetadata\<close> on the attached
  or on a detached video element, a timer tick.
  Pending promises are addressed by their position; an event that is not possible in a
  state leaves it as it is.
\<close>

text \<open>A face descriptor is opaque here (a \<^verbatim>\<open>Float32Array\<close> that face-api.js makes
  and compares): the events name it by a number.\<close>

type_synonym descriptor = nat

datatype event =
    Render
  | ClickToggle
  | ClickRetry
  | UserMediaSettled nat "string + stream"
  | LoadedMetadata
  | LoadedMetadataDetached nat
  | ModelsSettled nat "string option"
  | GallerySettled nat "string \<Rightarrow> nat \<Rightarrow> descriptor image_result"
  | Tick nat frame

definition settled :: "nat \<Rightarrow> app \<Rightarrow> app" where
  "settled i s = s\<lparr>pending := take i (pending s) @ drop (Suc i) (pending s)\<rparr>"

definition taskAt :: "nat \<Rightarrow> app \<Rightarrow> task option" where
  "taskAt i s = (if i < length (pending s) then Some (pending s ! i) else None)"

definition gallerySettled :: "string list \<Rightarrow> (string \<Rightarrow> nat \<Rightarrow> 'd image_result) \<Rightarrow> cont \<Rightarrow> app \<Rightarrow> app" where
  "gallerySettled labels img k s =
     (let b = getLabeledFaceDescriptions labels img
      in finish k (startFaceDetection_resume (gallery b)
                     (s\<lparr>console := console s @ warnings b\<rparr>)))"

fun step :: "string list \<Rightarrow> event \<Rightarrow> app \<Rightarrow> app" where
  "step labels Render s = render s"
| "step labels ClickToggle s = (if view s = MainView then toggleVideo s else s)"
| "step labels ClickRetry s = (if view s = ErrorView then retry s else s)"
| "step labels (UserMediaSettled i outcome) s =
     (case taskAt i s of
        Some (GetUserMedia c) \<Rightarrow> initializeVideo_settle c outcome (settled i s)
      | _ \<Rightarrow> s)"
| "step labels LoadedMetadata s = loadedmetadata s"
| "step labels (LoadedMetadataDetached i) s = loadedmetadata_detached i s"
| "step labels (ModelsSettled i outcome) s =
     (case taskAt i s of
        Some (LoadModels on ini) \<Rightarrow> loadModels_settle on ini outcome (settled i s)
      | _ \<Rightarrow> s)"
| "step labels (GallerySettled i img) s =
     (case taskAt i s of
        Some (Gallery k) \<Rightarrow> gallerySettled labels img k (settled i s)
      | _ \<Rightarrow> s)"
| "step labels (Tick t f) s = (if t \<in> set (timers s) then interval_callback f s else s)"

definition run :: "string list \<Rightarrow> event list \<Rightarrow> app \<Rightarrow> app" where
  "run labels es s = foldl (\<lambda>s e. step labels e s) s es"

section \<open>Notions used to state the properties\<close>

text \<open>The descriptors that the images \<open>is\<close> of a label yield, and the warnings that
  line 175 writes for them: one for every image whose fetch or detection threw.\<close>

definition faces :: "(string \<Rightarrow> nat \<Rightarrow> 'd image_result) \<Rightarrow> string \<Rightarrow> nat list \<Rightarrow> 'd list" where
  "faces img label is =
     List.map_filter (\<lambda>i. case img label i of Face d \<Rightarrow> Some d | _ \<Rightarrow> None) is"

definition thrown :: "(string \<Rightarrow> nat \<Rightarrow> 'd image_result) \<Rightarrow> string \<Rightarrow> nat list \<Rightarrow> log_entry list" where
  "thrown img label is =
     List.map_filter (\<lambda>i. case img label i of
                              FetchFailed m \<Rightarrow> Some (ConsoleWarn i label m)
                            | DetectFailed m \<Rightarrow> Some (ConsoleWarn i label m)
                            | _ \<Rightarrow> None) is"

text \<open>What a label contributes to the gallery when \<open>n\<close> images are scanned for it.\<close>

definition entry :: "(string \<Rightarrow> nat \<Rightarrow> 'd image_result) \<Rightarrow> nat \<Rightarrow> string \<Rightarrow> (string \<times> 'd list) list" where
  "entry img n label =
     (if faces img label [0..<n] = [] then [] else [(label, faces img label [0..<n])])"

definition isGallery :: "task \<Rightarrow> bool" where
  "isGallery t = (case t of Gallery k \<Rightarrow> True | _ \<Rightarrow> False)"

text \<open>As long as the models are not loaded, line 244 renders no video element, so
  none is attached and none was detached, and no call of \<^verbatim>\<open>startFaceDetection\<close> gets
  past line 45: no gallery build is pending and no timer was ever started.\<close>

definition modelsGate :: "app \<Rightarrow> bool" where
  "modelsGate s =
     (areModelsLoaded s \<or>
      (videoRef s = None \<and> detached s = [] \<and> timers s = [] \<and> nextTimer s = 0 \<and>
       filter isGallery (pending s) = []))"

subsection \<open>Concrete inputs\<close>

text \<open>Image oracles: every image shows one face; no image shows a face; a mix in which
  the label \<open>ann\<close> gets no descriptor at all.\<close>

definition oneFace :: "string \<Rightarrow> nat \<Rightarrow> descriptor image_result" where
  "oneFace label i = Face 7"

definition noFace :: "string \<Rightarrow> nat \<Rightarrow> descriptor image_result" where
  "noFace label i = NoFace"

definition mixedImages :: "string \<Rightarrow> nat \<Rightarrow> descriptor image_result" where
  "mixedImages label i =
     (if label = ''ann'' then (if i = 0 then FetchFailed ''404'' else NoFace)
      else (if i = 0 then Face 7 else DetectFailed ''bad image''))"

text \<open>
  \<open>started\<close>: the component mounts, the models load, the user clicks the toggle, React
  commits. Three promises are pending now: the \<^verbatim>\<open>getUserMedia\<close> of \<^verbatim>\<open>toggleVideo\<close>,
  the one of the effect, and the \<^verbatim>\<open>loadModels\<close> that the change of \<^verbatim>\<open>isVideoOn\<close>
  started.

  \<open>on_phase\<close> goes on: both streams arrive (tracks 0 and 1), the video reports its
  metadata, React commits (which starts one more \<^verbatim>\<open>loadModels\<close>), and both loads
  succeed. The second one was made by the render that saw \<^verbatim>\<open>isVideoInitialized\<close>, so
  its \<^verbatim>\<open>startFaceDetection\<close> passes line 45 and awaits the gallery.
\<close>

definition started :: "event list" where
  "started = [Render, ModelsSettled 0 None, Render, ClickToggle, Render]"

definition on_phase :: "event list" where
  "on_phase = started @
     [UserMediaSettled 0 (Inr [0]), UserMediaSettled 0 (Inr [1]), LoadedMetadata, Render,
      ModelsSettled 0 None, ModelsSettled 0 None]"

text \<open>\<open>second_on_phase\<close>: from \<open>on_phase\<close> the user toggles off and on again while the
  first gallery build is still pending; the camera gets ready again (tracks 2 and 3) and
  the reload that follows starts a second gallery build.\<close>

definition second_on_phase :: "event list" where
  "second_on_phase = on_phase @
     [ClickToggle, Render, ClickToggle, Render,
      UserMediaSettled 2 (Inr [2]), UserMediaSettled 2 (Inr [3]), LoadedMetadata, Render,
      ModelsSettled 1 None, ModelsSettled 1 None, ModelsSettled 1 None]"

section \<open>The gallery build\<close>

lemma image_loop_unfold:
  "image_loop img label n i a =
     a\<lparr>descriptors := descriptors a @ faces img label [i..<n],
       warned := warned a @ thrown img label [i..<n],
       fetched := fetched a @ map (Pair label) [i..<n]\<rparr>"
proof (induction img label n i a rule: image_loop.induct)
  case (1 img label n i a)
  show ?case
  proof (cases "i < n")
    case True
    then have upt: "[i..<n] = i # [Suc i..<n]"
      by (simp add: upt_conv_Cons)
    have "image_loop img label n i a = image_loop img label n (Suc i) (process_image img label i a)"
      using True by (subst image_loop.simps) simp
    also have "\<dots> = (process_image img label i a)
        \<lparr>descriptors := descriptors (process_image img label i a) @ faces img label [Suc i..<n],
         warned := warned (process_image img label i a) @ thrown img label [Suc i..<n],
         fetched := fetched (process_image img label i a) @ map (Pair label) [Suc i..<n]\<rparr>"
      using "1.IH" [OF True] .
    also have "\<dots> = a\<lparr>descriptors := descriptors a @ faces img label [i..<n],
       warned := warned a @ thrown img label [i..<n],
       fetched := fetched a @ map (Pair label) [i..<n]\<rparr>"
      unfolding upt
      by (cases "img label i") (simp_all add: process_image_def faces_def thrown_def)
    finally show ?thesis .
  next
    case False
    then show ?thesis
      by (subst image_loop.simps) (simp add: faces_def thrown_def)
  qed
qed

lemma label_callback_unfold:
  "label_callback labels img b label =
     \<lparr> gallery = gallery b @ entry img (length labels) label,
       warnings = warnings b @ thrown img label [0..<length labels],
       requests = requests b @ map (Pair label) [0..<length labels] \<rparr>"
  by (simp add: label_callback_def image_loop_unfold entry_def Let_def)

lemma gallery_label_callback:
  "gallery (label_callback labels img b l) = gallery b @ entry img (length labels) l"
  by (simp add: label_callback_unfold)

lemma warnings_label_callback:
  "warnings (label_callback labels img b l) = warnings b @ thrown img l [0..<length labels]"
  by (simp add: label_callback_unfold)

lemma requests_label_callback:
  "requests (label_callback labels img b l) = requests b @ map (Pair l) [0..<length labels]"
  by (simp add: label_callback_unfold)

lemma foldl_label_callback:
  "foldl (label_callback labels img) b ls =
     \<lparr> gallery = gallery b @ concat (map (entry img (length labels)) ls),
       warnings = warnings b @ concat (map (\<lambda>l. thrown img l [0..<length labels]) ls),
       requests = requests b @ concat (map (\<lambda>l. map (Pair l) [0..<length labels]) ls) \<rparr>"
proof (induction ls arbitrary: b)
  case Nil
  show ?case by simp
next
  case (Cons l ls)
  show ?case
    by (simp add: Cons.IH gallery_label_callback warnings_label_callback requests_label_callback)
qed

lemma build_unfold:
  "getLabeledFaceDescriptions labels img =
     \<lparr> gallery = concat (map (entry img (length labels)) labels),
       warnings = concat (map (\<lambda>l. thrown img l [0..<length labels]) labels),
       requests = concat (map (\<lambda>l. map (Pair l) [0..<length labels]) labels) \<rparr>"
  by (simp add: getLabeledFaceDescriptions_def foldl_label_callback)

section \<open>Releasing the camera\<close>

lemma stopVideo_idem: "stopVideo (stopVideo s) = stopVideo s"
  by (simp add: stopVideo_def clearInterval_def Let_def split: option.splits)

section \<open>No polling before the models are loaded\<close>

lemma gate_clearInterval: "modelsGate s \<Longrightarrow> modelsGate (clearInterval h s)"
  by (cases h) (auto simp: modelsGate_def clearInterval_def)

lemma gate_stopVideo: "modelsGate s \<Longrightarrow> modelsGate (stopVideo s)"
  unfolding stopVideo_def Let_def
  by (rule gate_clearInterval) (auto simp: modelsGate_def split: option.splits)

lemma gate_cleanup: "modelsGate s \<Longrightarrow> modelsGate (cleanup s)"
  unfolding cleanup_def
  by (rule gate_stopVideo, rule gate_clearInterval) (simp add: modelsGate_def)

lemma gate_effect: "modelsGate s \<Longrightarrow> modelsGate (effect_isVideoOn on s)"
proof -
  assume g: "modelsGate s"
  have g1: "modelsGate (s\<lparr>effectRun := Suc (effectRun s), mounted := True\<rparr>)"
    using g by (simp add: modelsGate_def)
  show ?thesis
  proof (cases on)
    case True
    then show ?thesis using g by (simp add: effect_isVideoOn_def Let_def modelsGate_def isGallery_def)
  next
    case False
    then show ?thesis using gate_stopVideo [OF g1] by (simp add: effect_isVideoOn_def Let_def)
  qed
qed

lemma gate_loadModels_start: "modelsGate s \<Longrightarrow> modelsGate (loadModels_start on ini s)"
  by (simp add: modelsGate_def loadModels_start_def isGallery_def)

lemma render_unfold:
  "render s =
     (if view s = NotRendered
      then loadModels_start (isVideoOn s) (isVideoInitialized s)
             (effect_isVideoOn (isVideoOn s) (committed s))
      else if isVideoOn s \<noteq> renderedOn s
      then loadModels_start (isVideoOn s) (isVideoInitialized s)
             (effect_isVideoOn (isVideoOn s) (cleanup (committed s)))
      else if isVideoInitialized s \<noteq> renderedInit s
      then loadModels_start (isVideoOn s) (isVideoInitialized s) (committed s)
      else committed s)"
  by (cases "view s = NotRendered"; cases "isVideoOn s = renderedOn s";
      cases "isVideoInitialized s = renderedInit s")
     (simp_all only: render_def Let_def simp_thms if_True if_False)

lemma gate_committed: "modelsGate s \<Longrightarrow> modelsGate (committed s)"
  by (auto simp: modelsGate_def committed_def commitRefs_def showsVideo_def)

lemma gate_render: "modelsGate s \<Longrightarrow> modelsGate (render s)"
  by (simp add: render_unfold gate_loadModels_start gate_effect gate_cleanup gate_committed)

lemma gate_finish: "modelsGate s \<Longrightarrow> modelsGate (finish k s)"
  by (cases k) (simp_all add: finish_def modelsGate_def)

lemma gate_enter: "modelsGate s \<Longrightarrow> modelsGate (startFaceDetection_enter ini k s)"
proof -
  assume g: "modelsGate s"
  show ?thesis
  proof (cases "startFaceDetection_guard ini s")
    case True
    then have "areModelsLoaded s"
      using g by (auto simp: startFaceDetection_guard_def modelsGate_def)
    then show ?thesis
      using True by (simp add: startFaceDetection_enter_def modelsGate_def)
  next
    case False
    then show ?thesis
      using g by (simp add: startFaceDetection_enter_def gate_finish)
  qed
qed

lemma gate_caller_catch: "modelsGate s \<Longrightarrow> modelsGate (caller_catch c m s)"
  by (cases c) (simp_all add: caller_catch_def modelsGate_def)

lemma gate_caller_continue: "modelsGate s \<Longrightarrow> modelsGate (caller_continue c s)"
  by (cases c) (simp_all add: caller_continue_def gate_enter)

lemma filter_without:
  "filter P xs = [] \<Longrightarrow> filter P (take i xs @ drop (Suc i) xs) = []"
  by (auto simp: filter_empty_conv dest: in_set_takeD in_set_dropD)

lemma gate_settled: "modelsGate s \<Longrightarrow> modelsGate (settled i s)"
  unfolding modelsGate_def settled_def
  by (auto simp del: filter_append simp add: filter_without)

lemma gate_initializeVideo_settle:
  assumes "modelsGate s"
  shows "modelsGate (initializeVideo_settle c outcome s)"
proof (cases outcome)
  case (Inl m)
  have "modelsGate (s\<lparr>error := Some (''Camera access denied: '' @ m)\<rparr>)"
    using assms by (simp add: modelsGate_def)
  then show ?thesis
    using Inl by (simp add: initializeVideo_settle_def gate_caller_catch)
next
  case (Inr st)
  have g1: "modelsGate (s\<lparr>liveTracks := liveTracks s @ st\<rparr>)"
    using assms by (simp add: modelsGate_def)
  show ?thesis
  proof (cases "videoRef s")
    case None
    then show ?thesis
      using Inr gate_caller_continue [OF g1]
      by (simp add: initializeVideo_settle_def Let_def)
  next
    case (Some v)
    then show ?thesis
      using Inr assms by (simp add: initializeVideo_settle_def Let_def modelsGate_def)
  qed
qed

lemma gate_loadedmetadata: "modelsGate s \<Longrightarrow> modelsGate (loadedmetadata s)"
proof -
  assume g: "modelsGate s"
  show ?thesis
  proof (cases "videoRef s")
    case None
    then show ?thesis using g by (simp add: loadedmetadata_def)
  next
    case (Some v)
    have g1: "modelsGate (s\<lparr>isVideoInitialized := True,
                            videoRef := Some (v\<lparr>metadataPending := False\<rparr>)\<rparr>)"
      using g Some by (simp add: modelsGate_def)
    show ?thesis
      using Some g gate_caller_continue [OF g1]
      by (simp add: loadedmetadata_def split: option.splits)
  qed
qed

lemma gate_loadedmetadata_detached:
  "modelsGate s \<Longrightarrow> modelsGate (loadedmetadata_detached i s)"
proof -
  assume g: "modelsGate s"
  show ?thesis
  proof (cases "areModelsLoaded s")
    case True
    have "modelsGate (s\<lparr>isVideoInitialized := True, detached := d\<rparr>)" for d
      using True by (simp add: modelsGate_def)
    then show ?thesis
      using g by (simp add: loadedmetadata_detached_def gate_caller_continue
          split: option.splits)
  next
    case False
    then have "detached s = []"
      using g by (simp add: modelsGate_def)
    then show ?thesis
      using g by (simp add: loadedmetadata_detached_def)
  qed
qed

lemma gate_loadModels_settle: "modelsGate s \<Longrightarrow> modelsGate (loadModels_settle on ini outcome s)"
proof -
  assume g: "modelsGate s"
  have g1: "modelsGate (s\<lparr>areModelsLoaded := True\<rparr>)"
    by (simp add: modelsGate_def)
  have g2: "modelsGate (s\<lparr>error := e, console := c\<rparr>)" for e c
    using g by (simp add: modelsGate_def)
  show ?thesis
    by (cases outcome) (simp_all add: loadModels_settle_def Let_def gate_enter gate_finish g1 g2)
qed

lemma areModelsLoaded_finish: "areModelsLoaded (finish k s) = areModelsLoaded s"
  by (cases k) (simp_all add: finish_def)

lemma areModelsLoaded_resume: "areModelsLoaded (startFaceDetection_resume g s) = areModelsLoaded s"
  by (simp add: startFaceDetection_resume_def setInterval_def)

lemma gate_gallerySettled:
  "areModelsLoaded s \<Longrightarrow> modelsGate (gallerySettled labels img k s)"
  by (simp add: modelsGate_def gallerySettled_def Let_def areModelsLoaded_finish
      areModelsLoaded_resume)

lemma gate_interval_callback: "modelsGate s \<Longrightarrow> modelsGate (interval_callback f s)"
  by (cases f) (simp_all add: interval_callback_def modelsGate_def)

lemma gate_toggleVideo: "modelsGate s \<Longrightarrow> modelsGate (toggleVideo s)"
proof -
  assume g: "modelsGate s"
  have "modelsGate ((stopVideo s)\<lparr>isVideoOn := False\<rparr>)"
    using gate_stopVideo [OF g] by (simp add: modelsGate_def)
  moreover have "modelsGate (s\<lparr>isVideoOn := True,
             pending := pending s @
               [GetUserMedia (FromToggle (renderedModels s) (renderedInit s))]\<rparr>)"
    using g by (simp add: modelsGate_def isGallery_def)
  ultimately show ?thesis
    by (simp add: toggleVideo_def)
qed

lemma gate_retry: "modelsGate s \<Longrightarrow> modelsGate (retry s)"
proof -
  assume g: "modelsGate s"
  have "modelsGate (s\<lparr>error := None\<rparr>)"
    using g by (simp add: modelsGate_def)
  then show ?thesis
    by (simp add: retry_def gate_loadModels_start)
qed

lemma gate_pending_gallery:
  assumes "modelsGate s" and "taskAt i s = Some (Gallery k)"
  shows "areModelsLoaded s"
proof (rule ccontr)
  assume "\<not> areModelsLoaded s"
  with assms(1) have "filter isGallery (pending s) = []"
    by (simp add: modelsGate_def)
  then have "\<not> isGallery (pending s ! i)" if "i < length (pending s)"
    using that by (simp add: filter_empty_conv)
  with assms(2) show False
    by (simp add: taskAt_def isGallery_def split: if_splits)
qed

lemma areModelsLoaded_settled: "areModelsLoaded (settled i s) = areModelsLoaded s"
  by (simp add: settled_def)

lemma gate_step: "modelsGate s \<Longrightarrow> modelsGate (step labels e s)"
proof (cases e)
  case (GallerySettled i img)
  assume g: "modelsGate s"
  show ?thesis
  proof (cases "taskAt i s")
    case None
    then show ?thesis using g GallerySettled by simp
  next
    case (Some t)
    then show ?thesis
      using g GallerySettled gate_pending_gallery [OF g, of i]
      by (cases t) (simp_all add: gate_gallerySettled areModelsLoaded_settled)
  qed
qed (auto simp: gate_render gate_toggleVideo gate_retry gate_initializeVideo_settle
       gate_settled gate_loadedmetadata gate_loadedmetadata_detached gate_loadModels_settle
       gate_interval_callback
     split: option.splits task.splits)

lemma gate_run: "modelsGate s \<Longrightarrow> modelsGate (run labels es s)"
  unfolding run_def
  by (induction es arbitrary: s) (simp_all add: gate_step)

lemma modelsGate_initial: "modelsGate initial"
  by (simp add: modelsGate_def initial_def)

section \<open>What each step does to the session state\<close>















section \<open>The example executions\<close>

lemma on_phase_state:
  "run [''ann''] on_phase initial =
     \<lparr> isVideoOn = True, isVideoInitialized = True, areModelsLoaded = True,
       error = None, isLoading = False,
       videoRef = Some \<lparr>srcObject = Some [1], onloadedmetadata = Some (FromEffect 2),
                         metadataPending = False\<rparr>,
       canvasRef = True, detectionIntervalRef = None, timers = [], nextTimer = 0,
       liveTracks = [0, 1], console = [], overlays = 0,
       pending = [Gallery AfterLoadModels],
       view = MainView, renderedOn = True, renderedInit = True, renderedModels = True,
       effectRun = 2, mounted = True, detached = [] \<rparr>"
  by code_simp

lemma polling_state:
  "run [''ann''] (on_phase @ [GallerySettled 0 oneFace]) initial =
     \<lparr> isVideoOn = True, isVideoInitialized = True, areModelsLoaded = True,
       error = None, isLoading = False,
       videoRef = Some \<lparr>srcObject = Some [1], onloadedmetadata = Some (FromEffect 2),
                         metadataPending = False\<rparr>,
       canvasRef = True, detectionIntervalRef = Some 0, timers = [0], nextTimer = 1,
       liveTracks = [0, 1], console = [], overlays = 0,
       pending = [],
       view = MainView, renderedOn = True, renderedInit = True, renderedModels = True,
       effectRun = 2, mounted = True, detached = [] \<rparr>"
  by code_simp

section \<open>C1, C2, C7: the timer and the toggle\<close>

text \<open>
  C1 says that the polling timer is never started while a readiness flag is false. The
  code checks \<^verbatim>\<open>isVideoInitialized\<close> at line 45 only, before the \<^verbatim>\<open>await\<close> of line 48.
  In the execution \<open>on_phase\<close> followed by a click on the toggle and a commit, the camera
  is released and \<^verbatim>\<open>isVideoInitialized\<close> and \<^verbatim>\<open>isVideoOn\<close> are false again while the
  gallery build is still pending; when it settles, line 56 starts timer 0.
\<close>

theorem timer_started_after_release:
  "areModelsLoaded (run [''ann''] (on_phase @ [ClickToggle, Render]) initial) \<and>
   \<not> isVideoInitialized (run [''ann''] (on_phase @ [ClickToggle, Render]) initial) \<and>
   \<not> isVideoOn (run [''ann''] (on_phase @ [ClickToggle, Render]) initial) \<and>
   timers (run [''ann''] (on_phase @ [ClickToggle, Render]) initial) = [] \<and>
   timers (step [''ann''] (GallerySettled 0 oneFace)
             (run [''ann''] (on_phase @ [ClickToggle, Render]) initial)) = [0] \<and>
   \<not> isVideoInitialized (step [''ann''] (GallerySettled 0 oneFace)
             (run [''ann''] (on_phase @ [ClickToggle, Render]) initial))"
  by code_simp

text \<open>
  C2 says that at most one polling timer is active in every reachable state and that
  the timer is cleared whenever the camera is toggled off. In \<open>second_on_phase\<close> two
  gallery builds are pending, the first one left over from the first on-phase. When both
  settle, timers 0 and 1 run side by side and the ref holds 1 only; the toggle-off and
  the commit that follow clear timer 1, and timer 0 stays.
\<close>

theorem two_timers_overlap:
  "timers (run [''ann''] (second_on_phase @
             [GallerySettled 0 oneFace, GallerySettled 0 oneFace]) initial) = [0, 1] \<and>
   detectionIntervalRef (run [''ann''] (second_on_phase @
             [GallerySettled 0 oneFace, GallerySettled 0 oneFace]) initial) = Some 1 \<and>
   timers (run [''ann''] (second_on_phase @
             [GallerySettled 0 oneFace, GallerySettled 0 oneFace, ClickToggle, Render])
             initial) = [0] \<and>
   \<not> isVideoOn (run [''ann''] (second_on_phase @
             [GallerySettled 0 oneFace, GallerySettled 0 oneFace, ClickToggle, Render])
             initial)"
  by code_simp

text \<open>
  C7 says that toggling on and then off leaves no active timer and no held stream,
  however far the on-phase got. When the on-phase got as far as the gallery build
  (\<open>on_phase\<close>), the toggle-off finds no timer to clear, and the build that settles
  afterwards starts timer 0 with the camera off; a later commit does not clear it and it
  keeps ticking. No stream is attached to the video surface, but track 0, of the stream
  that the second \<^verbatim>\<open>getUserMedia\<close> replaced, was never stopped.
\<close>

theorem toggle_off_leaves_timer:
  "\<not> isVideoOn (run [''ann''] (on_phase @
        [ClickToggle, Render, GallerySettled 0 oneFace, Render, Tick 0 FrameDrawn]) initial) \<and>
   heldStream (run [''ann''] (on_phase @
        [ClickToggle, Render, GallerySettled 0 oneFace, Render, Tick 0 FrameDrawn]) initial) = None \<and>
   timers (run [''ann''] (on_phase @
        [ClickToggle, Render, GallerySettled 0 oneFace, Render, Tick 0 FrameDrawn]) initial) = [0] \<and>
   liveTracks (run [''ann''] (on_phase @
        [ClickToggle, Render, GallerySettled 0 oneFace, Render, Tick 0 FrameDrawn]) initial) = [0]"
  by code_simp

section \<open>C3: a camera acquisition fails\<close>




lemma caller_catch_fields:
  "liveTracks (caller_catch c m s) = liveTracks s"
  "videoRef (caller_catch c m s) = videoRef s"
  by (cases c; simp add: caller_catch_def)+






section \<open>C4: what stopVideo does\<close>

text \<open>
  C4, amended. \<^verbatim>\<open>stopVideo\<close> stops every track of the stream the video surface holds,
  detaches it, clears \<^verbatim>\<open>isVideoInitialized\<close> and clears the timer that
  \<^verbatim>\<open>detectionIntervalRef\<close> names. With no stream held it touches no stream, but lines
  149-150 still run: it is the same as clearing the flag and that timer, and it leaves
  the state unchanged only when the flag was already false and the ref names no running
  timer.
\<close>

theorem stopVideo_releases:
  "heldStream (stopVideo s) = None \<and>
   (\<forall>tracks. heldStream s = Some tracks \<longrightarrow>
      (\<forall>t \<in> set tracks. t \<notin> set (liveTracks (stopVideo s)))) \<and>
   \<not> isVideoInitialized (stopVideo s) \<and>
   (\<forall>t. detectionIntervalRef s = Some t \<longrightarrow> t \<notin> set (timers (stopVideo s))) \<and>
   (heldStream s = None \<longrightarrow>
      stopVideo s = clearInterval (detectionIntervalRef s) (s\<lparr>isVideoInitialized := False\<rparr>)) \<and>
   (heldStream s = None \<and> \<not> isVideoInitialized s \<and>
    (case detectionIntervalRef s of None \<Rightarrow> True | Some t \<Rightarrow> t \<notin> set (timers s)) \<longrightarrow>
      stopVideo s = s)"
  by (auto simp: stopVideo_def clearInterval_def heldStream_def Let_def removeAll_id
      split: option.splits)

text \<open>The amended C4 in the state in which the app is polling (stream \<open>[1]\<close> on the
  video surface, timer 0 in the ref), and in the state right after it.\<close>

theorem stopVideo_releases_witness:
  "heldStream (run [''ann''] (on_phase @ [GallerySettled 0 oneFace]) initial) = Some [1] \<and>
   detectionIntervalRef (run [''ann''] (on_phase @ [GallerySettled 0 oneFace]) initial) = Some 0 \<and>
   heldStream (stopVideo (run [''ann''] (on_phase @ [GallerySettled 0 oneFace]) initial)) = None \<and>
   1 \<notin> set (liveTracks (stopVideo (run [''ann''] (on_phase @ [GallerySettled 0 oneFace]) initial))) \<and>
   \<not> isVideoInitialized (stopVideo (run [''ann''] (on_phase @ [GallerySettled 0 oneFace]) initial)) \<and>
   0 \<notin> set (timers (stopVideo (run [''ann''] (on_phase @ [GallerySettled 0 oneFace]) initial))) \<and>
   stopVideo (stopVideo (run [''ann''] (on_phase @ [GallerySettled 0 oneFace]) initial)) =
     stopVideo (run [''ann''] (on_phase @ [GallerySettled 0 oneFace]) initial)"
proof -
  let ?s = "run [''ann''] (on_phase @ [GallerySettled 0 oneFace]) initial"
  have held: "heldStream ?s = Some [1]" and ref: "detectionIntervalRef ?s = Some 0"
    by (simp_all add: polling_state heldStream_def)
  have quiet: "heldStream (stopVideo ?s) = None" "\<not> isVideoInitialized (stopVideo ?s)"
    "case detectionIntervalRef (stopVideo ?s) of None \<Rightarrow> True
     | Some t \<Rightarrow> t \<notin> set (timers (stopVideo ?s))"
    by code_simp+
  have again: "stopVideo (stopVideo ?s) = stopVideo ?s"
    using stopVideo_releases [of "stopVideo ?s"] quiet by blast
  show ?thesis
    using stopVideo_releases [of ?s] held ref again by simp
qed

text \<open>
  C4 as stated fails in its last part: with no stream held \<^verbatim>\<open>stopVideo\<close> is not a
  no-op. After an empty gallery the error view replaces the video element; Retry brings
  a fresh element back while \<^verbatim>\<open>isVideoInitialized\<close> is still true. In that state no
  stream is held, and the \<^verbatim>\<open>stopVideo\<close> that the next click on the toggle calls clears
  the flag.
\<close>

theorem stopVideo_not_noop_counterexample:
  "heldStream (run [''ann''] (on_phase @
       [GallerySettled 0 noFace, Render, ClickRetry, Render]) initial) = None \<and>
   isVideoInitialized (run [''ann''] (on_phase @
       [GallerySettled 0 noFace, Render, ClickRetry, Render]) initial) \<and>
   \<not> isVideoInitialized (stopVideo (run [''ann''] (on_phase @
       [GallerySettled 0 noFace, Render, ClickRetry, Render]) initial)) \<and>
   stopVideo (run [''ann''] (on_phase @
       [GallerySettled 0 noFace, Render, ClickRetry, Render]) initial) \<noteq>
     run [''ann''] (on_phase @ [GallerySettled 0 noFace, Render, ClickRetry, Render]) initial \<and>
   step [''ann''] ClickToggle (run [''ann''] (on_phase @
       [GallerySettled 0 noFace, Render, ClickRetry, Render]) initial) =
     (stopVideo (run [''ann''] (on_phase @
       [GallerySettled 0 noFace, Render, ClickRetry, Render]) initial))\<lparr>isVideoOn := False\<rparr>"
  by code_simp

section \<open>C5: loading the models\<close>

lemma loadModels_settle_flag:
  "areModelsLoaded (loadModels_settle on ini outcome s) = (areModelsLoaded s \<or> outcome = None)"
  by (cases outcome)
     (simp_all add: loadModels_settle_def Let_def startFaceDetection_enter_def finish_def)

lemma loadModels_rejected:
  "loadModels_settle on ini (Some m) s =
     s\<lparr>error := Some (''Failed to load models: '' @ m),
       console := console s @ [ConsoleError ''Error loading models:'' m],
       isLoading := False\<rparr>"
  by (simp add: loadModels_settle_def finish_def)

text \<open>
  C5, amended. A run of \<^verbatim>\<open>loadModels\<close> sets \<^verbatim>\<open>areModelsLoaded\<close> exactly when all
  loads succeed and otherwise leaves the flag as it was (false when no other run has
  succeeded). On a failure it puts a non-empty message in the error slot, starts nothing
  and retries nothing; the Retry button clears the slot and calls \<^verbatim>\<open>loadModels\<close>
  again, as does the effect of lines 113-115 after every change of \<^verbatim>\<open>isVideoOn\<close> or
  \<^verbatim>\<open>isVideoInitialized\<close>. In every state that an execution reaches with
  \<^verbatim>\<open>areModelsLoaded\<close> false, no timer runs or was ever started and no gallery build is
  pending.
\<close>

theorem loadModels_outcome:
  "(areModelsLoaded (loadModels_settle on ini outcome s) \<longleftrightarrow>
      areModelsLoaded s \<or> outcome = None) \<and>
   (\<forall>m. outcome = Some m \<longrightarrow>
      error (loadModels_settle on ini outcome s) = Some (''Failed to load models: '' @ m) \<and>
      errorShown (loadModels_settle on ini outcome s) \<and>
      pending (loadModels_settle on ini outcome s) = pending s \<and>
      timers (loadModels_settle on ini outcome s) = timers s) \<and>
   error (retry s) = None \<and>
   pending (retry s) = pending s @ [LoadModels (renderedOn s) (renderedInit s)] \<and>
   (\<not> areModelsLoaded (run labels es initial) \<longrightarrow>
      timers (run labels es initial) = [] \<and> nextTimer (run labels es initial) = 0 \<and>
      filter isGallery (pending (run labels es initial)) = [])"
proof -
  have "modelsGate (run labels es initial)"
    by (rule gate_run) (rule modelsGate_initial)
  then have gate: "\<not> areModelsLoaded (run labels es initial) \<longrightarrow>
      timers (run labels es initial) = [] \<and> nextTimer (run labels es initial) = 0 \<and>
      filter isGallery (pending (run labels es initial)) = []"
    by (auto simp: modelsGate_def)
  have rej: "\<forall>m. outcome = Some m \<longrightarrow>
      error (loadModels_settle on ini outcome s) = Some (''Failed to load models: '' @ m) \<and>
      errorShown (loadModels_settle on ini outcome s) \<and>
      pending (loadModels_settle on ini outcome s) = pending s \<and>
      timers (loadModels_settle on ini outcome s) = timers s"
    by (simp add: loadModels_rejected errorShown_def)
  have again: "error (retry s) = None"
    "pending (retry s) = pending s @ [LoadModels (renderedOn s) (renderedInit s)]"
    by (simp_all add: retry_def loadModels_start_def)
  show ?thesis
    by (intro conjI) (rule loadModels_settle_flag rej again gate)+
qed

text \<open>
  The amended C5 where the load at startup fails after the user has asked for the
  camera: the flag stays false and the message is shown; both streams arrive and are
  dropped at line 127, the second load fails too, and no timer is started.
\<close>

theorem loadModels_outcome_witness:
  "\<not> areModelsLoaded (loadModels_settle False False (Some ''Failed to fetch'')
        (settled 0 (run [''ann''] [Render, ClickToggle, Render] initial))) \<and>
   error (loadModels_settle False False (Some ''Failed to fetch'')
        (settled 0 (run [''ann''] [Render, ClickToggle, Render] initial))) =
     Some ''Failed to load models: Failed to fetch'' \<and>
   \<not> areModelsLoaded (run [''ann''] [Render, ClickToggle, Render,
        ModelsSettled 0 (Some ''Failed to fetch''), UserMediaSettled 0 (Inr [0]),
        UserMediaSettled 0 (Inr [1]), ModelsSettled 0 (Some ''Failed to fetch''),
        Render, ClickRetry] initial) \<and>
   timers (run [''ann''] [Render, ClickToggle, Render,
        ModelsSettled 0 (Some ''Failed to fetch''), UserMediaSettled 0 (Inr [0]),
        UserMediaSettled 0 (Inr [1]), ModelsSettled 0 (Some ''Failed to fetch''),
        Render, ClickRetry] initial) = []"
proof -
  let ?s = "settled 0 (run [''ann''] [Render, ClickToggle, Render] initial)"
  let ?es = "[Render, ClickToggle, Render,
        ModelsSettled 0 (Some ''Failed to fetch''), UserMediaSettled 0 (Inr [0]),
        UserMediaSettled 0 (Inr [1]), ModelsSettled 0 (Some ''Failed to fetch''),
        Render, ClickRetry]"
  have before: "\<not> areModelsLoaded ?s"
    by code_simp
  have after: "\<not> areModelsLoaded (run [''ann''] ?es initial)"
    by code_simp
  show ?thesis
    using loadModels_outcome [of False False "Some ''Failed to fetch''" ?s "[''ann'']" ?es]
      before after
    by simp
qed

text \<open>
  C5 as stated fails twice. A reload that fails after an earlier load succeeded leaves
  \<^verbatim>\<open>areModelsLoaded\<close> true, not false (first two conjuncts: the reload that the
  toggle-on of \<open>started\<close> triggers). And after a failed load the flag becomes true
  without any Retry when another run succeeds (last conjunct: the load at startup fails,
  the one started by the toggle-on succeeds).
\<close>

theorem loadModels_failure_counterexample:
  "areModelsLoaded (run [''ann''] (started @ [ModelsSettled 2 (Some ''Failed to fetch'')]) initial) \<and>
   error (run [''ann''] (started @ [ModelsSettled 2 (Some ''Failed to fetch'')]) initial) =
     Some ''Failed to load models: Failed to fetch'' \<and>
   areModelsLoaded (run [''ann''] [Render, ClickToggle, Render,
      ModelsSettled 0 (Some ''Failed to fetch''), ModelsSettled 2 None] initial)"
  by code_simp

section \<open>C6: a frame that throws\<close>

lemma interval_callback_threw:
  "interval_callback (FrameThrew m) s =
     (if canvasRef s \<and> videoRef s \<noteq> None
      then s\<lparr>console := console s @ [ConsoleError ''Frame processing error:'' m]\<rparr>
      else s)"
  by (simp add: interval_callback_def)

text \<open>
  C6. On a tick of a running timer whose detection or drawing throws, the \<^verbatim>\<open>catch\<close> of
  line 83 writes one console line (the body is entered only with both refs attached,
  line 57) and nothing else changes: the timers and the ref, the three flags and the
  error slot are as before, and the next tick of the same timer runs the callback again.
\<close>

theorem frame_error_keeps_timer:
  assumes "t \<in> set (timers s)"
  shows "timers (step labels (Tick t (FrameThrew m)) s) = timers s \<and>
     detectionIntervalRef (step labels (Tick t (FrameThrew m)) s) = detectionIntervalRef s \<and>
     isVideoOn (step labels (Tick t (FrameThrew m)) s) = isVideoOn s \<and>
     isVideoInitialized (step labels (Tick t (FrameThrew m)) s) = isVideoInitialized s \<and>
     areModelsLoaded (step labels (Tick t (FrameThrew m)) s) = areModelsLoaded s \<and>
     error (step labels (Tick t (FrameThrew m)) s) = error s \<and>
     console (step labels (Tick t (FrameThrew m)) s) =
       (if canvasRef s \<and> videoRef s \<noteq> None
        then console s @ [ConsoleError ''Frame processing error:'' m]
        else console s) \<and>
     step labels (Tick t f) (step labels (Tick t (FrameThrew m)) s) =
       interval_callback f (step labels (Tick t (FrameThrew m)) s)"
proof -
  let ?s' = "step labels (Tick t (FrameThrew m)) s"
  have s': "?s' = interval_callback (FrameThrew m) s"
    using assms by simp
  have fields: "timers ?s' = timers s" "detectionIntervalRef ?s' = detectionIntervalRef s"
    "isVideoOn ?s' = isVideoOn s" "isVideoInitialized ?s' = isVideoInitialized s"
    "areModelsLoaded ?s' = areModelsLoaded s" "error ?s' = error s"
    unfolding s' by (simp_all add: interval_callback_threw)
  have logged: "console ?s' =
       (if canvasRef s \<and> videoRef s \<noteq> None
        then console s @ [ConsoleError ''Frame processing error:'' m]
        else console s)"
    unfolding s' by (simp add: interval_callback_threw)
  have "t \<in> set (timers ?s')"
    using assms fields(1) by simp
  then have again: "step labels (Tick t f) ?s' = interval_callback f ?s'"
    by (simp only: step.simps if_True)
  show ?thesis
    using fields logged again by (simp only: simp_thms)
qed

text \<open>C6 while the app is polling: a frame throws, the line is logged, timer 0 is still
  running, and the next frame is drawn.\<close>

theorem frame_error_keeps_timer_witness:
  "0 \<in> set (timers (run [''ann''] (on_phase @ [GallerySettled 0 oneFace]) initial)) \<and>
   timers (step [''ann''] (Tick 0 (FrameThrew ''no frame''))
      (run [''ann''] (on_phase @ [GallerySettled 0 oneFace]) initial)) = [0] \<and>
   error (step [''ann''] (Tick 0 (FrameThrew ''no frame''))
      (run [''ann''] (on_phase @ [GallerySettled 0 oneFace]) initial)) = None \<and>
   console (step [''ann''] (Tick 0 (FrameThrew ''no frame''))
      (run [''ann''] (on_phase @ [GallerySettled 0 oneFace]) initial)) =
     [ConsoleError ''Frame processing error:'' ''no frame''] \<and>
   overlays (step [''ann''] (Tick 0 FrameDrawn) (step [''ann''] (Tick 0 (FrameThrew ''no frame''))
      (run [''ann''] (on_phase @ [GallerySettled 0 oneFace]) initial))) = 1"
proof -
  let ?s = "run [''ann''] (on_phase @ [GallerySettled 0 oneFace]) initial"
  have running: "0 \<in> set (timers ?s)"
    by (simp add: polling_state)
  have drawn: "overlays (interval_callback FrameDrawn
                 (step [''ann''] (Tick 0 (FrameThrew ''no frame'')) ?s)) = 1"
    by code_simp
  show ?thesis
    using frame_error_keeps_timer [OF running, of "[''ann'']" "''no frame''" FrameDrawn]
      running drawn
    by (simp add: polling_state)
qed

section \<open>C8, C9, C10: the reference gallery\<close>

text \<open>
  C8, amended. The build always returns. Up to the order in which the callbacks of the
  labels finish, the gallery holds every label with the descriptors of those of its
  images in which a face was found, and no label without a descriptor; and a warning is
  written for exactly the images whose fetch or detection threw. An image in which no
  face is found is skipped without a warning.
\<close>

theorem gallery_skips_and_drops:
  "mset (gallery (getLabeledFaceDescriptions labels img)) =
     mset (concat (map (entry img (length labels)) labels)) \<and>
   mset (warnings (getLabeledFaceDescriptions labels img)) =
     mset (concat (map (\<lambda>label. thrown img label [0..<length labels]) labels))"
  by (simp add: build_unfold)

text \<open>The amended C8 on two labels: the fetch of image 0 of \<open>ann\<close> fails and her image 1
  shows no face, image 0 of \<open>bob\<close> shows a face and the detection on his image 1 throws.\<close>

theorem gallery_skips_and_drops_witness:
  "mset (gallery (getLabeledFaceDescriptions [''ann'', ''bob''] mixedImages)) =
     {#(''bob'', [7])#} \<and>
   mset (warnings (getLabeledFaceDescriptions [''ann'', ''bob''] mixedImages)) =
     {#ConsoleWarn 0 ''ann'' ''404'', ConsoleWarn 1 ''bob'' ''bad image''#}"
  using gallery_skips_and_drops [of "[''ann'', ''bob'']" mixedImages]
  by (simp add: entry_def faces_def thrown_def mixedImages_def upt_rec)

text \<open>C8 as stated fails where it promises a warning for every image whose detection
  fails: the one image of \<open>ann\<close> is fetched, no face is found in it, the gallery is
  empty, and no warning is written (line 171 has no \<^verbatim>\<open>else\<close>).\<close>

theorem gallery_no_face_counterexample:
  "requests (getLabeledFaceDescriptions [''ann''] noFace) = [(''ann'', 0)] \<and>
   gallery (getLabeledFaceDescriptions [''ann''] noFace) = [] \<and>
   warnings (getLabeledFaceDescriptions [''ann''] noFace) = []"
  by (simp add: build_unfold entry_def faces_def thrown_def noFace_def)

text \<open>
  C9. For every label of the list the build requests the images with the indices
  \<open>0, ..., N - 1\<close>, where \<open>N\<close> is the number of labels, whatever the outcome of the
  single requests: the requests made are, up to the order in which the callbacks of the
  labels interleave, the pairs of a label and an index below \<open>N\<close>.
\<close>

theorem gallery_requests_per_label:
  "mset (requests (getLabeledFaceDescriptions labels img)) =
     mset (List.product labels [0..<length labels])"
  by (simp add: build_unfold product_concat_map)

text \<open>C9 on two labels: two images are requested for each.\<close>

theorem gallery_requests_per_label_witness:
  "mset (requests (getLabeledFaceDescriptions [''ann'', ''bob''] mixedImages)) =
     {#(''ann'', 0), (''ann'', 1), (''bob'', 0), (''bob'', 1)#}"
  using gallery_requests_per_label [of "[''ann'', ''bob'']" mixedImages]
  by (simp add: upt_rec)

text \<open>
  C10. When the gallery build yields an empty gallery, what \<^verbatim>\<open>startFaceDetection\<close>
  and its caller do afterwards starts no timer and leaves the ref alone, puts the
  non-empty message of lines 51 and 88 in the error slot, and keeps \<^verbatim>\<open>isVideoOn\<close>,
  \<^verbatim>\<open>isVideoInitialized\<close> and \<^verbatim>\<open>areModelsLoaded\<close> as they were.
\<close>

theorem empty_gallery_sets_error:
  "gallery (getLabeledFaceDescriptions labels img) = [] \<Longrightarrow>
     timers (gallerySettled labels img k s) = timers s \<and>
     nextTimer (gallerySettled labels img k s) = nextTimer s \<and>
     detectionIntervalRef (gallerySettled labels img k s) = detectionIntervalRef s \<and>
     error (gallerySettled labels img k s) =
       Some ''Face detection failed: No face descriptors found'' \<and>
     errorShown (gallerySettled labels img k s) \<and>
     isVideoInitialized (gallerySettled labels img k s) = isVideoInitialized s \<and>
     areModelsLoaded (gallerySettled labels img k s) = areModelsLoaded s \<and>
     isVideoOn (gallerySettled labels img k s) = isVideoOn s"
  by (cases k) (simp_all add: gallerySettled_def startFaceDetection_resume_def finish_def
      errorShown_def Let_def)

text \<open>C10 at the end of \<open>on_phase\<close>, when no image of \<open>ann\<close> shows a face.\<close>

theorem empty_gallery_sets_error_witness:
  "gallery (getLabeledFaceDescriptions [''ann''] noFace) = [] \<and>
   step [''ann''] (GallerySettled 0 noFace) (run [''ann''] on_phase initial) =
     gallerySettled [''ann''] noFace AfterLoadModels (settled 0 (run [''ann''] on_phase initial)) \<and>
   timers (gallerySettled [''ann''] noFace AfterLoadModels
             (settled 0 (run [''ann''] on_phase initial))) = [] \<and>
   error (gallerySettled [''ann''] noFace AfterLoadModels
             (settled 0 (run [''ann''] on_phase initial))) =
     Some ''Face detection failed: No face descriptors found'' \<and>
   isVideoInitialized (gallerySettled [''ann''] noFace AfterLoadModels
             (settled 0 (run [''ann''] on_phase initial)))"
proof -
  let ?s = "settled 0 (run [''ann''] on_phase initial)"
  have empty: "gallery (getLabeledFaceDescriptions [''ann''] noFace) = []"
    by (simp add: build_unfold entry_def faces_def noFace_def)
  have before: "timers ?s = []" "isVideoInitialized ?s"
    by (simp_all add: on_phase_state settled_def)
  have event: "step [''ann''] (GallerySettled 0 noFace) (run [''ann''] on_phase initial) =
     gallerySettled [''ann''] noFace AfterLoadModels ?s"
    by (simp add: on_phase_state taskAt_def)
  show ?thesis
    using empty_gallery_sets_error [OF empty, of AfterLoadModels ?s] empty before event
    by simp
qed

end
